theory Spec2Isabelle
  imports Complex_Main
begin

section \<open>The transcription engine of \<^verbatim>\<open>src/transcribe.ts\<close>\<close>

text \<open>
  The class \<^verbatim>\<open>TranscriptionEngine\<close> turns an audio file into text through one of three
  backends. Its asynchronous methods are embedded as functions that return the final state
  of the promise they hand back together with the list of calls they made to the outside,
  in the order of the calls. Whatever the outside answers (the vault, the HTTP endpoints,
  the speech SDK, the date library, the local time zone) is read from a record \<open>world\<close>.
  Console output, notices and the status bar are write-only and left out.
\<close>

subsection \<open>Values a promise settles with\<close>

text \<open>The members of \<^verbatim>\<open>sdk.CancellationReason\<close> and of \<^verbatim>\<open>sdk.ResultReason\<close>; the
  adapter compares against \<^verbatim>\<open>Error\<close>, \<^verbatim>\<open>RecognizedSpeech\<close> and \<^verbatim>\<open>NoMatch\<close> only.\<close>

datatype cancellation_reason = Error | CancelledByUser | EndOfStream

datatype result_reason = NoMatch | Canceled | RecognizingSpeech | RecognizedSpeech | OtherResultReason

text \<open>The argument of the \<^verbatim>\<open>canceled\<close> callback.\<close>

record canceled_event =
  reason :: cancellation_reason
  errorDetails :: string

text \<open>What a promise can be rejected with: a string (\<^verbatim>\<open>Promise.reject('...')\<close>), the
  \<^verbatim>\<open>TypeError\<close> the runtime raises when something that is not a function is called or a
  property of \<^verbatim>\<open>undefined\<close> is read, an error object raised by a collaborator (named by a
  tag), or the event object the speech SDK handed to \<^verbatim>\<open>canceled\<close>.\<close>

datatype js_value = Str string | TypeError | ErrorObject string | CanceledEvent canceled_event

text \<open>The final state of a promise. \<open>Pending\<close> is a promise that never settles.\<close>

datatype 'a promise = Resolved 'a | Rejected js_value | Pending

text \<open>\<^verbatim>\<open>p.then(f)\<close> with a callback for fulfilment only: a rejection passes through.\<close>

fun promise_then :: "'a promise \<Rightarrow> ('a \<Rightarrow> 'b) \<Rightarrow> 'b promise" where
  "promise_then (Resolved v) f = Resolved (f v)"
| "promise_then (Rejected e) f = Rejected e"
| "promise_then Pending f = Pending"

text \<open>Inside an \<^verbatim>\<open>async\<close> function, \<^verbatim>\<open>return f(...)\<close> resolves the promise with what
  \<^verbatim>\<open>f\<close> returns and rejects it with what \<^verbatim>\<open>f\<close> throws.\<close>

fun returned :: "js_value + 'a \<Rightarrow> 'a promise" where
  "returned (Inl e) = Rejected e"
| "returned (Inr v) = Resolved v"

subsection \<open>Settings, wire data and effects\<close>

type_synonym tfile = string

type_synonym bytes = string

text \<open>The fields of \<^verbatim>\<open>TranscriptionSettings\<close> the engine reads (without \<^verbatim>\<open>debug\<close> and
  \<^verbatim>\<open>verbosity\<close>, which only steer the output that is left out).\<close>

record settings =
  transcription_engine :: string
  dev :: bool
  swiftinkToken :: string
  translate :: bool
  timestamps :: bool
  timestampFormat :: string
  whisperASRUrl :: string
  azureKey :: string
  azureRegion :: string
  azureLang :: string

text \<open>\<^verbatim>\<open>TimestampedTextSegment\<close> and the body of \<^verbatim>\<open>GET /transcripts/{id}\<close>. The fields
  \<^verbatim>\<open>end\<close> and \<^verbatim>\<open>text\<close> carry a prime or a prefix because the bare words are reserved.
  A field that is \<^verbatim>\<open>undefined\<close> is \<open>None\<close>. The status is the string the code compares.\<close>

record segment =
  start :: rat
  end' :: rat
  text' :: string

record transcription =
  status :: string
  text_segments :: "segment list option"
  transcript_text :: "string option"

text \<open>\<^verbatim>\<open>RequestUrlParam\<close>.\<close>

record request =
  req_method :: string
  req_url :: string
  req_headers :: "(string \<times> string) list"
  req_contentType :: "string option"
  req_body :: "bytes option"

text \<open>The response of the Whisper ASR endpoint as far as the adapter looks at it:
  \<^verbatim>\<open>response.text\<close> when it is a string, and what reading \<^verbatim>\<open>response.json.text\<close> gives.\<close>

record whisper_response =
  response_text :: "string option"
  response_json_text :: "js_value + string"

text \<open>How the recogniser is configured: a fixed language, or detection among candidates.\<close>

datatype language_config = AutoDetect "string list" | Language string

record recognizer_config =
  subscriptionKey :: string
  serviceRegion :: string
  language :: language_config
  wavBuffer :: bytes

text \<open>The calls to the outside, and the calls of a promise's \<^verbatim>\<open>resolve\<close> and
  \<^verbatim>\<open>reject\<close> inside the streaming adapter.\<close>

datatype effect =
    ReadBinary tfile
  | PayloadGenerator bytes
  | GetWaveBlob bytes
  | RequestUrl request
  | Sleep nat
  | NewRecognizer recognizer_config
  | StartContinuousRecognition
  | StopContinuousRecognition
  | CallResolve string
  | CallReject js_value

text \<open>The events the speech SDK delivers to the three callbacks.\<close>

datatype sdk_event =
    RecognizedEvent result_reason string
  | CanceledEventArgs canceled_event
  | SessionStoppedEvent

text \<open>
  The answers of the outside. A call that can throw or reject answers \<open>Inl\<close> the error.
  \<^item> \<open>readBinary\<close>, \<open>payloadGenerator\<close>, \<open>getWaveBlob\<close>: the vault and the two helpers of
    the plugin that are imported from other files;
  \<^item> \<open>whisper_reply\<close>: the answer to the POST of the Whisper adapter;
  \<^item> \<open>create_reply\<close>: the \<^verbatim>\<open>id\<close> in the answer to \<^verbatim>\<open>POST /transcripts/\<close>;
  \<^item> \<open>status_reply n\<close>: the answer to the status GET issued after \<open>n\<close> earlier ones;
  \<^item> \<open>recognizer_error\<close>: what building the SDK's configuration and recogniser throws;
  \<^item> \<open>sdk_events\<close>: the events the SDK delivers after recognition was started;
  \<^item> \<open>date_of_seconds x\<close>: the time value of \<^verbatim>\<open>new Date(x * 1000)\<close>, a double-precision
    product clipped to whole milliseconds, \<open>None\<close> for an invalid date;
  \<^item> \<open>getTimezoneOffset t\<close>: the local zone's offset from UTC in minutes at time \<open>t\<close>;
  \<^item> \<open>format\<close>: \<^verbatim>\<open>format\<close> of date-fns, which throws on a date or pattern it refuses.
\<close>

record world =
  readBinary :: "tfile \<Rightarrow> js_value + bytes"
  payloadGenerator :: "bytes \<Rightarrow> js_value + bytes \<times> string"
  getWaveBlob :: "bytes \<Rightarrow> js_value + bytes"
  whisper_reply :: "js_value + whisper_response"
  create_reply :: "js_value + string"
  status_reply :: "nat \<Rightarrow> js_value + transcription"
  recognizer_error :: "js_value option"
  sdk_events :: "sdk_event list"
  date_of_seconds :: "rat \<Rightarrow> int option"
  getTimezoneOffset :: "int \<Rightarrow> int"
  format :: "int option \<Rightarrow> string \<Rightarrow> js_value + string"

subsection \<open>The segment formatter\<close>

text \<open>\<^verbatim>\<open>new Date(v)\<close> keeps a time value of at most 8.64e15 ms in magnitude.\<close>

definition time_clip :: "int \<Rightarrow> int option" where
  "time_clip v = (if \<bar>v\<bar> \<le> 8640000000000000 then Some v else None)"

text \<open>\<^verbatim>\<open>new Date(d.getTime() + d.getTimezoneOffset() * 60000)\<close>; both are \<^verbatim>\<open>NaN\<close> for an
  invalid date.\<close>

definition add_timezone_offset :: "world \<Rightarrow> int option \<Rightarrow> int option" where
  "add_timezone_offset w d =
     (case d of None \<Rightarrow> None | Some t \<Rightarrow> time_clip (t + getTimezoneOffset w t * 60000))"

text \<open>The body of the loop up to \<^verbatim>\<open>segment_string\<close>: the start is formatted first.\<close>

definition segment_string :: "world \<Rightarrow> string \<Rightarrow> segment \<Rightarrow> js_value + string" where
  "segment_string w timestampFormat' sg =
     (let start_date = add_timezone_offset w (date_of_seconds w (start sg));
          end_date = add_timezone_offset w (date_of_seconds w (end' sg))
      in case format w start_date timestampFormat' of
           Inl e \<Rightarrow> Inl e
         | Inr start_formatted \<Rightarrow>
             (case format w end_date timestampFormat' of
                Inl e \<Rightarrow> Inl e
              | Inr end_formatted \<Rightarrow>
                  Inr (start_formatted @ '' - '' @ end_formatted @ '': '' @ text' sg @ [CHR 0x0A])))"

text \<open>The \<^verbatim>\<open>for\<close> loop: \<open>transcription\<close> is the string built so far.\<close>

fun segments_loop :: "world \<Rightarrow> string \<Rightarrow> segment list \<Rightarrow> string \<Rightarrow> js_value + string" where
  "segments_loop w timestampFormat' [] transcription' = Inr transcription'"
| "segments_loop w timestampFormat' (sg # segments) transcription' =
     (case segment_string w timestampFormat' sg of
        Inl e \<Rightarrow> Inl e
      | Inr s \<Rightarrow> segments_loop w timestampFormat' segments (transcription' @ s))"

definition segmentsToTimestampedString :: "world \<Rightarrow> segment list \<Rightarrow> string \<Rightarrow> js_value + string" where
  "segmentsToTimestampedString w segments timestampFormat' =
     segments_loop w timestampFormat' segments []"

subsection \<open>The asynchronous job adapter (Swiftink)\<close>

definition api_base :: "settings \<Rightarrow> string" where
  "api_base s = (if dev s then ''https://example.com'' else ''https://api.swiftink.io'')"

text \<open>\<^verbatim>\<open>JSON.stringify({ 'translate': b })\<close>.\<close>

definition stringify_translate :: "bool \<Rightarrow> string" where
  \<open>stringify_translate b = (if b then ''{"translate":true}'' else ''{"translate":false}'')\<close>

definition create_transcription_request :: "settings \<Rightarrow> request" where
  "create_transcription_request s =
     \<lparr>req_method = ''POST'',
      req_url = api_base s @ ''/transcripts/'',
      req_headers = [(''Authorization'', ''Bearer '' @ swiftinkToken s)],
      req_contentType = None,
      req_body = Some (stringify_translate (translate s))\<rparr>"

definition get_transcription_request :: "settings \<Rightarrow> string \<Rightarrow> request" where
  "get_transcription_request s transcript_id =
     \<lparr>req_method = ''GET'',
      req_url = api_base s @ ''/transcripts/'' @ transcript_id,
      req_headers = [(''Authorization'', ''Bearer '' @ swiftinkToken s)],
      req_contentType = None,
      req_body = None\<rparr>"

definition max_tries :: nat where
  "max_tries = 200"

definition sleep_time :: nat where
  "sleep_time = 3000"

text \<open>The condition of the first \<^verbatim>\<open>if\<close> of the poll loop: the status is
  \<^verbatim>\<open>'complete'\<close> and neither \<^verbatim>\<open>text_segments\<close> nor \<^verbatim>\<open>text\<close> is undefined. It hands
  the two fields to the branch.\<close>

definition complete_with_fields :: "transcription \<Rightarrow> (segment list \<times> string) option" where
  "complete_with_fields t =
     (if status t = ''complete'' then
        (case text_segments t of
           None \<Rightarrow> None
         | Some segments \<Rightarrow>
             (case transcript_text t of None \<Rightarrow> None | Some txt \<Rightarrow> Some (segments, txt)))
      else None)"

text \<open>The \<^verbatim>\<open>while (true)\<close> loop. \<open>tries\<close> is the counter of the source, \<open>polls\<close> the
  number of status requests already answered. Each round issues the GET; a failing
  request rejects with its error; the last branch sleeps and goes round again. The loop
  ends: once \<open>tries\<close> exceeds \<open>max_tries\<close> every branch returns.\<close>

function poll_loop ::
  "world \<Rightarrow> settings \<Rightarrow> request \<Rightarrow> nat \<Rightarrow> nat \<Rightarrow> string promise \<times> effect list" where
  "poll_loop w s rq tries polls =
     (case status_reply w polls of
        Inl e \<Rightarrow> (Rejected e, [RequestUrl rq])
      | Inr t \<Rightarrow>
          (case complete_with_fields t of
             Some (segments, txt) \<Rightarrow>
               (if timestamps s then
                  (returned (segmentsToTimestampedString w segments (timestampFormat s)),
                   [RequestUrl rq])
                else (Resolved txt, [RequestUrl rq]))
           | None \<Rightarrow>
               if tries > max_tries then
                 (Rejected (Str ''Swiftink took too long to transcribe the file''), [RequestUrl rq])
               else if status t = ''failed'' then
                 (Rejected (Str ''Swiftink failed to transcribe the file''), [RequestUrl rq])
               else if status t = ''validation_failed'' then
                 (Rejected (Str ''Swiftink has detected an invalid file''), [RequestUrl rq])
               else
                 (case poll_loop w s rq (tries + 1) (polls + 1) of
                    (p, fx) \<Rightarrow> (p, RequestUrl rq # Sleep sleep_time # fx))))"
  by pat_completeness auto
termination
  by (relation "measure (\<lambda>(w, s, rq, tries, polls). max_tries + 1 - tries)") auto

text \<open>The adapter: create the transcript, then poll it. The file itself is not read (the
  upload is commented out in the source).\<close>

definition getTranscriptionSwiftink ::
  "world \<Rightarrow> settings \<Rightarrow> tfile \<Rightarrow> string promise \<times> effect list" where
  "getTranscriptionSwiftink w s file' =
     (case create_reply w of
        Inl e \<Rightarrow> (Rejected e, [RequestUrl (create_transcription_request s)])
      | Inr transcript_id \<Rightarrow>
          (case poll_loop w s (get_transcription_request s transcript_id) 0 0 of
             (p, fx) \<Rightarrow> (p, RequestUrl (create_transcription_request s) # fx)))"

subsection \<open>The synchronous adapter (Whisper ASR)\<close>

definition whisper_options :: "settings \<Rightarrow> bytes \<Rightarrow> string \<Rightarrow> request" where
  "whisper_options s request_body boundary_string =
     \<lparr>req_method = ''POST'',
      req_url = whisperASRUrl s @ ''/asr?task=transcribe&language=en'',
      req_headers = [],
      req_contentType = Some (''multipart/form-data; boundary=----'' @ boundary_string),
      req_body = Some request_body\<rparr>"

definition getTranscriptionWhisperASR ::
  "world \<Rightarrow> settings \<Rightarrow> tfile \<Rightarrow> string promise \<times> effect list" where
  "getTranscriptionWhisperASR w s file' =
     (case readBinary w file' of
        Inl e \<Rightarrow> (Rejected e, [ReadBinary file'])
      | Inr audio \<Rightarrow>
          (case payloadGenerator w audio of
             Inl e \<Rightarrow> (Rejected e, [ReadBinary file', PayloadGenerator audio])
           | Inr (request_body, boundary_string) \<Rightarrow>
               ((case whisper_reply w of
                   Inl e \<Rightarrow> Rejected e
                 | Inr response \<Rightarrow>
                     (case response_text response of
                        Some txt \<Rightarrow> Resolved txt
                      | None \<Rightarrow>
                          (case response_json_text response of
                             Inl e \<Rightarrow> Rejected e
                           | Inr txt \<Rightarrow> Resolved txt))),
                [ReadBinary file', PayloadGenerator audio,
                 RequestUrl (whisper_options s request_body boundary_string)])))"

subsection \<open>The streaming adapter (Azure speech service)\<close>

text \<open>\<^verbatim>\<open>String.prototype.trim\<close> on the code units below 256: tab, line feed, vertical tab,
  form feed, carriage return, space and no-break space are stripped from both ends.\<close>

definition is_white_space :: "char \<Rightarrow> bool" where
  "is_white_space c =
     (c = CHR 0x09 \<or> c = CHR 0x0A \<or> c = CHR 0x0B \<or> c = CHR 0x0C \<or> c = CHR 0x0D \<or>
      c = CHR 0x20 \<or> c = CHR 0xA0)"

definition trim :: "string \<Rightarrow> string" where
  "trim str = rev (dropWhile is_white_space (rev (dropWhile is_white_space str)))"

text \<open>What the executor of \<^verbatim>\<open>new Promise\<close> closes over: the variable \<^verbatim>\<open>text\<close>, the state
  of the promise, and the calls made so far.\<close>

record session =
  text_acc :: string
  settled :: "string promise"
  calls :: "effect list"

text \<open>\<^verbatim>\<open>resolve\<close> and \<^verbatim>\<open>reject\<close> settle a pending promise and do nothing to a settled one.\<close>

definition resolve :: "session \<Rightarrow> string \<Rightarrow> session" where
  "resolve st v =
     st\<lparr>settled := (case settled st of Pending \<Rightarrow> Resolved v | Resolved u \<Rightarrow> Resolved u
                      | Rejected e \<Rightarrow> Rejected e),
        calls := calls st @ [CallResolve v]\<rparr>"

definition reject :: "session \<Rightarrow> js_value \<Rightarrow> session" where
  "reject st e =
     st\<lparr>settled := (case settled st of Pending \<Rightarrow> Rejected e | Resolved u \<Rightarrow> Resolved u
                      | Rejected e' \<Rightarrow> Rejected e'),
        calls := calls st @ [CallReject e]\<rparr>"

definition stopContinuousRecognitionAsync :: "session \<Rightarrow> session" where
  "stopContinuousRecognitionAsync st = st\<lparr>calls := calls st @ [StopContinuousRecognition]\<rparr>"

text \<open>The three callbacks, statement by statement.\<close>

definition recognized :: "session \<Rightarrow> result_reason \<Rightarrow> string \<Rightarrow> session" where
  "recognized st result_reason' result_text =
     (if result_reason' = RecognizedSpeech then
        st\<lparr>text_acc := text_acc st @ '' '' @ result_text\<rparr>
      else if result_reason' = NoMatch then resolve st (trim (text_acc st))
      else st)"

definition canceled :: "session \<Rightarrow> canceled_event \<Rightarrow> session" where
  "canceled st e =
     stopContinuousRecognitionAsync
       (if reason e = Error then reject st (CanceledEvent e) else st)"

definition sessionStopped :: "session \<Rightarrow> session" where
  "sessionStopped st = stopContinuousRecognitionAsync (resolve st (trim (text_acc st)))"

fun deliver :: "session \<Rightarrow> sdk_event \<Rightarrow> session" where
  "deliver st (RecognizedEvent result_reason' result_text) = recognized st result_reason' result_text"
| "deliver st (CanceledEventArgs e) = canceled st e"
| "deliver st SessionStoppedEvent = sessionStopped st"

text \<open>The executor sets \<^verbatim>\<open>text = ''\<close>, installs the callbacks and starts recognition;
  the callbacks then run once per event, in the order the SDK delivers them.\<close>

definition started :: session where
  "started = \<lparr>text_acc = [], settled = Pending, calls = [StartContinuousRecognition]\<rparr>"

definition run_session :: "sdk_event list \<Rightarrow> session" where
  "run_session events = foldl deliver started events"

definition recognizer_for :: "settings \<Rightarrow> bytes \<Rightarrow> recognizer_config" where
  "recognizer_for s wav =
     \<lparr>subscriptionKey = azureKey s,
      serviceRegion = azureRegion s,
      language = (if azureLang s = ''auto'' then AutoDetect [''en-US'', ''uk-UA'']
                  else Language (azureLang s)),
      wavBuffer = wav\<rparr>"

definition getTranscriptionAzure ::
  "world \<Rightarrow> settings \<Rightarrow> tfile \<Rightarrow> string promise \<times> effect list" where
  "getTranscriptionAzure w s file' =
     (case readBinary w file' of
        Inl e \<Rightarrow> (Rejected e, [ReadBinary file'])
      | Inr webmBytes \<Rightarrow>
          (case getWaveBlob w webmBytes of
             Inl e \<Rightarrow> (Rejected e, [ReadBinary file', GetWaveBlob webmBytes])
           | Inr wav \<Rightarrow>
               (case recognizer_error w of
                  Some e \<Rightarrow>
                    (Rejected e,
                     [ReadBinary file', GetWaveBlob webmBytes, NewRecognizer (recognizer_for s wav)])
                | None \<Rightarrow>
                    (let st = run_session (sdk_events w)
                     in (settled st,
                         [ReadBinary file', GetWaveBlob webmBytes,
                          NewRecognizer (recognizer_for s wav)] @ calls st)))))"

subsection \<open>The dispatcher\<close>

text \<open>The registry \<^verbatim>\<open>transcription_engines\<close>: an object with three own keys.\<close>

definition transcription_engines ::
  "world \<Rightarrow> settings \<Rightarrow> (string \<times> (tfile \<Rightarrow> string promise \<times> effect list)) list" where
  "transcription_engines w s =
     [(''swiftink'', getTranscriptionSwiftink w s),
      (''whisper_asr'', getTranscriptionWhisperASR w s),
      (''azure_speech_service'', getTranscriptionAzure w s)]"

text \<open>\<^verbatim>\<open>getTranscription\<close> looks the configured name up and calls what it finds. For a name
  that is not a key the lookup gives \<^verbatim>\<open>undefined\<close> (or, for a name such as
  \<^verbatim>\<open>toString\<close>, a member of \<^verbatim>\<open>Object.prototype\<close> whose result has no \<^verbatim>\<open>then\<close>); the call
  throws a \<^verbatim>\<open>TypeError\<close> inside the \<^verbatim>\<open>async\<close> function, which makes the returned promise
  reject with it. The callback of \<^verbatim>\<open>then\<close> returns the transcription it is given.\<close>

definition getTranscription :: "world \<Rightarrow> settings \<Rightarrow> tfile \<Rightarrow> string promise \<times> effect list" where
  "getTranscription w s file' =
     (case map_of (transcription_engines w s) (transcription_engine s) of
        None \<Rightarrow> (Rejected TypeError, [])
      | Some transcriptionEngine \<Rightarrow>
          (case transcriptionEngine file' of
             (p, fx) \<Rightarrow> (promise_then p (\<lambda>transcription'. transcription'), fx)))"

subsection \<open>Notions used in the statements\<close>

text \<open>A status reply on which the poll loop goes round again while the try counter has not
  passed \<open>max_tries\<close>: the request succeeded, the reply is not a complete one with both
  fields, and its status is neither \<^verbatim>\<open>failed\<close> nor \<^verbatim>\<open>validation_failed\<close>.\<close>

fun keeps_polling :: "js_value + transcription \<Rightarrow> bool" where
  "keeps_polling (Inl e) = False"
| "keeps_polling (Inr t) =
     (complete_with_fields t = None \<and> status t \<noteq> ''failed'' \<and> status t \<noteq> ''validation_failed'')"

text \<open>The calls of \<open>k\<close> rounds that went round again: a status request and a sleep each.\<close>

fun rounds :: "nat \<Rightarrow> request \<Rightarrow> effect list" where
  "rounds 0 rq = []"
| "rounds (Suc k) rq = RequestUrl rq # Sleep sleep_time # rounds k rq"

text \<open>The number of GET requests among the calls.\<close>

fun is_status_request :: "effect \<Rightarrow> bool" where
  "is_status_request (RequestUrl rq) = (req_method rq = ''GET'')"
| "is_status_request other = False"

definition status_requests :: "effect list \<Rightarrow> nat" where
  "status_requests fx = length (filter is_status_request fx)"

text \<open>A status reply that says \<^verbatim>\<open>complete\<close> while \<^verbatim>\<open>text_segments\<close> or \<^verbatim>\<open>text\<close> is
  undefined.\<close>

fun complete_without_fields :: "js_value + transcription \<Rightarrow> bool" where
  "complete_without_fields (Inl e) = False"
| "complete_without_fields (Inr t) =
     (status t = ''complete'' \<and> (text_segments t = None \<or> transcript_text t = None))"

text \<open>\<^verbatim>\<open>fragments.join(' ')\<close>: the fragments in order with a single space between neighbours.\<close>

fun join_space :: "string list \<Rightarrow> string" where
  "join_space [] = []"
| "join_space [fragment] = fragment"
| "join_space (fragment # next_fragment # fragments) =
     fragment @ '' '' @ join_space (next_fragment # fragments)"

text \<open>The events on which a callback calls \<^verbatim>\<open>resolve\<close> or \<^verbatim>\<open>reject\<close>: a recognised result
  with reason \<^verbatim>\<open>NoMatch\<close>, a cancellation with reason \<^verbatim>\<open>Error\<close>, and the end of the session.\<close>

fun terminal_event :: "sdk_event \<Rightarrow> bool" where
  "terminal_event (RecognizedEvent result_reason' result_text) = (result_reason' = NoMatch)"
| "terminal_event (CanceledEventArgs e) = (reason e = Error)"
| "terminal_event SessionStoppedEvent = True"

text \<open>The calls of \<^verbatim>\<open>resolve\<close> and \<^verbatim>\<open>reject\<close> among the calls.\<close>

fun is_settle_call :: "effect \<Rightarrow> bool" where
  "is_settle_call (CallResolve v) = True"
| "is_settle_call (CallReject e) = True"
| "is_settle_call other = False"

subsection \<open>Example inputs\<close>

text \<open>A reply that carries a status and neither text nor segments.\<close>

definition status_only :: "string \<Rightarrow> transcription" where
  "status_only st = \<lparr>status = st, text_segments = None, transcript_text = None\<rparr>"

definition example_settings :: settings where
  "example_settings =
     \<lparr>transcription_engine = ''swiftink'', dev = False, swiftinkToken = ''secret'',
      translate = False, timestamps = True, timestampFormat = ''mm:ss'',
      whisperASRUrl = ''http://localhost:9000'', azureKey = ''key'',
      azureRegion = ''westeurope'', azureLang = ''auto''\<rparr>"

text \<open>A formatter for the examples: it knows the pattern \<^verbatim>\<open>mm:ss\<close> only and refuses an
  invalid date, as date-fns does.\<close>

definition two_digits :: "nat \<Rightarrow> string" where
  "two_digits n = [''0123456789'' ! (n div 10 mod 10), ''0123456789'' ! (n mod 10)]"

definition format_mm_ss :: "int option \<Rightarrow> string \<Rightarrow> js_value + string" where
  "format_mm_ss d pattern =
     (case d of
        None \<Rightarrow> Inl (ErrorObject ''RangeError: Invalid time value'')
      | Some t \<Rightarrow>
          if pattern = ''mm:ss'' then
            Inr (two_digits (nat (t div 60000 mod 60)) @ '':'' @ two_digits (nat (t div 1000 mod 60)))
          else Inl (ErrorObject ''RangeError: pattern outside the example''))"

text \<open>An outside in which every collaborator answers, the host's zone is UTC, and the
  status replies and the SDK's events are as given. Its dates take the product with 1000
  exactly and cut it towards zero, which is what double precision gives on the small
  whole seconds of the examples.\<close>

definition example_world :: "(nat \<Rightarrow> js_value + transcription) \<Rightarrow> sdk_event list \<Rightarrow> world" where
  "example_world replies events =
     \<lparr>readBinary = (\<lambda>f. Inr ''webm''),
      payloadGenerator = (\<lambda>b. Inr (b, ''boundary'')),
      getWaveBlob = (\<lambda>b. Inr ''wav''),
      whisper_reply = Inr \<lparr>response_text = Some ''hello'', response_json_text = Inr ''hello''\<rparr>,
      create_reply = Inr ''42'',
      status_reply = replies,
      recognizer_error = None,
      sdk_events = events,
      date_of_seconds =
        (\<lambda>x. time_clip (if 0 \<le> x then floor (x * 1000) else ceiling (x * 1000))),
      getTimezoneOffset = (\<lambda>t. 0),
      format = format_mm_ss\<rparr>"

text \<open>Two hundred polls answered \<^verbatim>\<open>queued\<close>, every later one \<^verbatim>\<open>failed\<close>.\<close>

definition late_failure_replies :: "nat \<Rightarrow> js_value + transcription" where
  "late_failure_replies n = Inr (status_only (if n < 200 then ''queued'' else ''failed''))"

text \<open>Every poll up to the 201st answered \<^verbatim>\<open>processing\<close>, every later one \<^verbatim>\<open>failed\<close>.\<close>

definition failure_past_budget_replies :: "nat \<Rightarrow> js_value + transcription" where
  "failure_past_budget_replies n =
     Inr (status_only (if n \<le> 200 then ''processing'' else ''failed''))"

text \<open>Two polls answered \<^verbatim>\<open>queued\<close>, then \<^verbatim>\<open>complete\<close> with text and two segments.\<close>

definition three_polls_replies :: "nat \<Rightarrow> js_value + transcription" where
  "three_polls_replies n =
     (if n < 2 then Inr (status_only ''queued'')
      else Inr \<lparr>status = ''complete'',
                text_segments = Some [\<lparr>start = 1, end' = 3, text' = ''hello''\<rparr>,
                                      \<lparr>start = 3, end' = 62, text' = ''world''\<rparr>],
                transcript_text = Some ''hello world''\<rparr>)"

text \<open>Every poll answered \<^verbatim>\<open>complete\<close> with a text and no segments.\<close>

definition text_only_replies :: "nat \<Rightarrow> js_value + transcription" where
  "text_only_replies n =
     Inr \<lparr>status = ''complete'', text_segments = None, transcript_text = Some ''hello''\<rparr>"

text \<open>An outside in which reading the file throws a \<^verbatim>\<open>TypeError\<close>.\<close>

definition crashing_world :: world where
  "crashing_world = (example_world three_polls_replies [])\<lparr>readBinary := (\<lambda>f. Inl TypeError)\<rparr>"

text \<open>A number in decimal digits, with a minus sign when negative.\<close>

fun decimal :: "nat \<Rightarrow> string" where
  "decimal n =
     (if n < 10 then [''0123456789'' ! n]
      else decimal (n div 10) @ [''0123456789'' ! (n mod 10)])"

definition signed_decimal :: "int \<Rightarrow> string" where
  "signed_decimal i = (if i < 0 then ''-'' @ decimal (nat (- i)) else decimal (nat i))"

text \<open>The formatter of a host whose zone has a constant offset (in minutes, as
  \<^verbatim>\<open>getTimezoneOffset\<close> reports it), for two patterns of date-fns: \<^verbatim>\<open>mm:ss\<close> renders the
  minutes and seconds of the local time, \<^verbatim>\<open>T\<close> the time value in milliseconds. An invalid
  date is refused.\<close>

definition format_in_zone :: "int \<Rightarrow> int option \<Rightarrow> string \<Rightarrow> js_value + string" where
  "format_in_zone offset d pattern =
     (case d of
        None \<Rightarrow> Inl (ErrorObject ''RangeError: Invalid time value'')
      | Some t \<Rightarrow>
          if pattern = ''mm:ss'' then format_mm_ss (Some (t - offset * 60000)) pattern
          else if pattern = ''T'' then Inr (signed_decimal t)
          else Inl (ErrorObject ''RangeError: pattern outside the example''))"

text \<open>A host in such a zone: \<open>host_in_zone 0\<close> is in UTC, \<open>host_in_zone (- 330)\<close> five
  and a half hours east of it.\<close>

definition host_in_zone :: "int \<Rightarrow> world" where
  "host_in_zone offset =
     (example_world three_polls_replies [])
       \<lparr>getTimezoneOffset := (\<lambda>t. offset), format := format_in_zone offset\<rparr>"

section \<open>Properties of the poll loop\<close>

declare poll_loop.simps [simp del]

lemma poll_loop_round:
  assumes "keeps_polling (status_reply w polls)" and "tries \<le> max_tries"
  shows "poll_loop w s rq tries polls =
           (case poll_loop w s rq (tries + 1) (polls + 1) of
              (p, fx) \<Rightarrow> (p, RequestUrl rq # Sleep sleep_time # fx))"
proof (cases "status_reply w polls")
  case (Inl e)
  with assms show ?thesis by simp
next
  case (Inr t)
  with assms show ?thesis
    by (subst poll_loop.simps) simp
qed

lemma poll_loop_rounds:
  assumes "\<And>j. j < k \<Longrightarrow> keeps_polling (status_reply w (polls + j))"
    and "tries + k \<le> max_tries + 1"
  shows "poll_loop w s rq tries polls =
           (case poll_loop w s rq (tries + k) (polls + k) of
              (p, fx) \<Rightarrow> (p, rounds k rq @ fx))"
  using assms
proof (induction k arbitrary: tries polls)
  case 0
  show ?case by (simp split: prod.split)
next
  case (Suc k)
  have first: "keeps_polling (status_reply w polls)"
    using Suc.prems(1) [of 0] by simp
  have rest: "\<And>j. j < k \<Longrightarrow> keeps_polling (status_reply w (Suc polls + j))"
    using Suc.prems(1) by (metis Suc_less_eq add_Suc_shift)
  have "poll_loop w s rq (Suc tries) (Suc polls) =
          (case poll_loop w s rq (Suc tries + k) (Suc polls + k) of
             (p, fx) \<Rightarrow> (p, rounds k rq @ fx))"
    using Suc.IH [of "Suc polls" "Suc tries"] rest Suc.prems(2) by simp
  moreover have "poll_loop w s rq tries polls =
          (case poll_loop w s rq (Suc tries) (Suc polls) of
             (p, fx) \<Rightarrow> (p, RequestUrl rq # Sleep sleep_time # fx))"
    using poll_loop_round [OF first, of tries s rq] Suc.prems(2) by simp
  ultimately show ?case by (simp split: prod.split)
qed

lemma poll_loop_timeout:
  assumes "status_reply w polls = Inr t" and "complete_with_fields t = None"
    and "tries > max_tries"
  shows "poll_loop w s rq tries polls =
           (Rejected (Str ''Swiftink took too long to transcribe the file''), [RequestUrl rq])"
  using assms by (subst poll_loop.simps) simp

lemma status_requests_rounds:
  "req_method rq = ''GET'' \<Longrightarrow> status_requests (rounds k rq @ fx) = k + status_requests fx"
  by (induction k) (simp_all add: status_requests_def)

text \<open>
  C1, as the code has it. The claim counts 200 polls; the loop compares the try counter,
  which is one less than the number of polls issued, with \<open>tries > max_tries\<close>. So the
  timeout branch is first taken on the 202nd poll: when the first 201 status replies
  (numbers 0 to 200) all make the loop go round again, the adapter issues a 202nd status
  request, and unless that reply is complete with text and segments it rejects with
  \<^verbatim>\<open>'Swiftink took too long to transcribe the file'\<close>, whatever the status of that reply is,
  \<^verbatim>\<open>failed\<close> and \<^verbatim>\<open>validation_failed\<close> included.
\<close>

theorem poll_timeout_after_budget:
  assumes "create_reply w = Inr transcript_id"
    and "\<And>n. n \<le> max_tries \<Longrightarrow> keeps_polling (status_reply w n)"
    and "status_reply w (max_tries + 1) = Inr t"
    and "complete_with_fields t = None"
  shows "getTranscriptionSwiftink w s file' =
           (Rejected (Str ''Swiftink took too long to transcribe the file''),
            RequestUrl (create_transcription_request s) #
            rounds (max_tries + 1) (get_transcription_request s transcript_id) @
            [RequestUrl (get_transcription_request s transcript_id)])"
proof -
  let ?rq = "get_transcription_request s transcript_id"
  have "poll_loop w s ?rq 0 0 =
          (case poll_loop w s ?rq (0 + (max_tries + 1)) (0 + (max_tries + 1)) of
             (p, fx) \<Rightarrow> (p, rounds (max_tries + 1) ?rq @ fx))"
    by (rule poll_loop_rounds) (simp_all add: assms(2))
  moreover have "poll_loop w s ?rq (max_tries + 1) (max_tries + 1) =
          (Rejected (Str ''Swiftink took too long to transcribe the file''), [RequestUrl ?rq])"
    by (rule poll_loop_timeout [OF assms(3) assms(4)]) simp
  ultimately show ?thesis
    by (simp add: getTranscriptionSwiftink_def assms(1))
qed

text \<open>The witness: 201 polls answered \<^verbatim>\<open>processing\<close>, the 202nd \<^verbatim>\<open>failed\<close>. The adapter
  reports the timeout, not the remote failure.\<close>

theorem poll_timeout_after_budget_witness:
  "getTranscriptionSwiftink (example_world failure_past_budget_replies []) example_settings
     ''memo.webm'' =
   (Rejected (Str ''Swiftink took too long to transcribe the file''),
    RequestUrl (create_transcription_request example_settings) #
    rounds 201 (get_transcription_request example_settings ''42'') @
    [RequestUrl (get_transcription_request example_settings ''42'')])"
  using poll_timeout_after_budget
    [of "example_world failure_past_budget_replies []" "''42''" "status_only ''failed''"
        example_settings "''memo.webm''"]
  by (simp add: example_world_def failure_past_budget_replies_def max_tries_def status_only_def
        complete_with_fields_def)

text \<open>The counterexample to C1 as stated: the first 200 polls are answered \<^verbatim>\<open>queued\<close>, so
  no terminal status is reached within 200 polls, and the 201st is answered \<^verbatim>\<open>failed\<close>.
  The try counter is 200 then, which does not exceed \<open>max_tries\<close>, and the adapter rejects
  with the remote failure after 201 status requests.\<close>

theorem timeout_within_200_polls_counterexample:
  "list_all keeps_polling (map late_failure_replies [0..<200]) \<and>
   getTranscriptionSwiftink (example_world late_failure_replies []) example_settings ''memo.webm'' =
     (Rejected (Str ''Swiftink failed to transcribe the file''),
      RequestUrl (create_transcription_request example_settings) #
      rounds 200 (get_transcription_request example_settings ''42'') @
      [RequestUrl (get_transcription_request example_settings ''42'')])"
proof
  show "list_all keeps_polling (map late_failure_replies [0..<200])"
    by (simp add: list_all_iff late_failure_replies_def status_only_def complete_with_fields_def)
next
  let ?w = "example_world late_failure_replies []"
  let ?rq = "get_transcription_request example_settings ''42''"
  have "poll_loop ?w example_settings ?rq 0 0 =
          (case poll_loop ?w example_settings ?rq (0 + 200) (0 + 200) of
             (p, fx) \<Rightarrow> (p, rounds 200 ?rq @ fx))"
    by (rule poll_loop_rounds)
       (simp_all add: example_world_def late_failure_replies_def status_only_def
          complete_with_fields_def max_tries_def)
  moreover have "poll_loop ?w example_settings ?rq 200 200 =
          (Rejected (Str ''Swiftink failed to transcribe the file''), [RequestUrl ?rq])"
    by (subst poll_loop.simps)
       (simp add: example_world_def late_failure_replies_def status_only_def
          complete_with_fields_def max_tries_def)
  ultimately show "getTranscriptionSwiftink ?w example_settings ''memo.webm'' =
     (Rejected (Str ''Swiftink failed to transcribe the file''),
      RequestUrl (create_transcription_request example_settings) # rounds 200 ?rq @ [RequestUrl ?rq])"
    by (simp add: getTranscriptionSwiftink_def example_world_def)
qed

lemma poll_loop_complete:
  assumes "status_reply w polls = Inr t" and "status t = ''complete''"
    and "text_segments t = Some segments" and "transcript_text t = Some txt"
  shows "poll_loop w s rq tries polls =
           (if timestamps s then returned (segmentsToTimestampedString w segments (timestampFormat s))
            else Resolved txt, [RequestUrl rq])"
  using assms by (subst poll_loop.simps) (simp add: complete_with_fields_def)

lemma status_requests_Cons:
  "status_requests (e # fx) = (if is_status_request e then 1 else 0) + status_requests fx"
  by (simp add: status_requests_def)

lemma status_requests_Nil: "status_requests [] = 0"
  by (simp add: status_requests_def)

lemma req_method_get: "req_method (get_transcription_request s transcript_id) = ''GET''"
  by (simp add: get_transcription_request_def)

lemma req_method_create: "req_method (create_transcription_request s) = ''POST''"
  by (simp add: create_transcription_request_def)

text \<open>
  C2: when the first two status replies say \<^verbatim>\<open>queued\<close> and the third says \<^verbatim>\<open>complete\<close>
  and carries both text and segments, the adapter issues the creating POST and exactly
  three status GETs with a sleep of 3000 ms after each of the first two, and settles with
  the text of the third reply, or, when timestamps are enabled, with what the segment
  formatter returns for its segments.
\<close>

theorem three_polls_then_complete:
  assumes "create_reply w = Inr transcript_id"
    and "status_reply w 0 = Inr t0" and "status t0 = ''queued''"
    and "status_reply w 1 = Inr t1" and "status t1 = ''queued''"
    and "status_reply w 2 = Inr t2" and "status t2 = ''complete''"
    and "text_segments t2 = Some segments" and "transcript_text t2 = Some txt"
  shows "getTranscriptionSwiftink w s file' =
           (if timestamps s then returned (segmentsToTimestampedString w segments (timestampFormat s))
            else Resolved txt,
            [RequestUrl (create_transcription_request s),
             RequestUrl (get_transcription_request s transcript_id), Sleep sleep_time,
             RequestUrl (get_transcription_request s transcript_id), Sleep sleep_time,
             RequestUrl (get_transcription_request s transcript_id)]) \<and>
         status_requests (snd (getTranscriptionSwiftink w s file')) = 3"
proof -
  let ?rq = "get_transcription_request s transcript_id"
  have "keeps_polling (status_reply w j)" if "j < 2" for j
  proof -
    from that have "j = 0 \<or> j = 1" by auto
    then show ?thesis using assms(2-5) by (auto simp: complete_with_fields_def)
  qed
  then have "poll_loop w s ?rq 0 0 =
          (case poll_loop w s ?rq (0 + 2) (0 + 2) of (p, fx) \<Rightarrow> (p, rounds 2 ?rq @ fx))"
    by (intro poll_loop_rounds) (simp_all add: max_tries_def)
  moreover have "poll_loop w s ?rq 2 2 =
          (if timestamps s then returned (segmentsToTimestampedString w segments (timestampFormat s))
           else Resolved txt, [RequestUrl ?rq])"
    by (rule poll_loop_complete [OF assms(6-9)])
  ultimately have first: "getTranscriptionSwiftink w s file' =
           (if timestamps s then returned (segmentsToTimestampedString w segments (timestampFormat s))
            else Resolved txt,
            [RequestUrl (create_transcription_request s),
             RequestUrl ?rq, Sleep sleep_time, RequestUrl ?rq, Sleep sleep_time, RequestUrl ?rq])"
    by (simp add: getTranscriptionSwiftink_def assms(1) numeral_2_eq_2)
  have "status_requests (snd (getTranscriptionSwiftink w s file')) = 3"
    by (simp add: first status_requests_def create_transcription_request_def
          get_transcription_request_def)
  with first show ?thesis by simp
qed

lemma example_dates:
  "date_of_seconds (example_world replies events) 1 = Some 1000"
  "date_of_seconds (example_world replies events) 3 = Some 3000"
  "date_of_seconds (example_world replies events) 62 = Some 62000"
  by (simp_all add: example_world_def time_clip_def)

lemma example_offset:
  "add_timezone_offset (example_world replies events) (Some t) = time_clip t"
  by (simp add: example_world_def add_timezone_offset_def)

lemma example_format:
  "format (example_world replies events) (Some 1000) ''mm:ss'' = Inr ''00:01''"
  "format (example_world replies events) (Some 3000) ''mm:ss'' = Inr ''00:03''"
  "format (example_world replies events) (Some 62000) ''mm:ss'' = Inr ''01:02''"
  by (simp_all add: example_world_def format_mm_ss_def two_digits_def)

lemma example_formatted:
  "format (example_world replies events)
     (add_timezone_offset (example_world replies events)
        (date_of_seconds (example_world replies events) 1)) ''mm:ss'' = Inr ''00:01''"
  "format (example_world replies events)
     (add_timezone_offset (example_world replies events)
        (date_of_seconds (example_world replies events) 3)) ''mm:ss'' = Inr ''00:03''"
  "format (example_world replies events)
     (add_timezone_offset (example_world replies events)
        (date_of_seconds (example_world replies events) 62)) ''mm:ss'' = Inr ''01:02''"
  by (simp_all add: example_dates example_offset time_clip_def example_format)

lemma example_segments_formatted:
  "segmentsToTimestampedString (example_world replies events)
     [\<lparr>start = 1, end' = 3, text' = ''hello''\<rparr>, \<lparr>start = 3, end' = 62, text' = ''world''\<rparr>]
     ''mm:ss'' =
   Inr (''00:01 - 00:03: hello'' @ [CHR 0x0A] @ ''00:03 - 01:02: world'' @ [CHR 0x0A])"
  by (simp add: segmentsToTimestampedString_def segment_string_def example_formatted)

text \<open>The witness runs the adapter on such replies, with timestamps and without.\<close>

theorem three_polls_then_complete_witness:
  "getTranscriptionSwiftink (example_world three_polls_replies []) example_settings ''memo.webm'' =
     (Resolved (''00:01 - 00:03: hello'' @ [CHR 0x0A] @ ''00:03 - 01:02: world'' @ [CHR 0x0A]),
      [RequestUrl (create_transcription_request example_settings),
       RequestUrl (get_transcription_request example_settings ''42''), Sleep 3000,
       RequestUrl (get_transcription_request example_settings ''42''), Sleep 3000,
       RequestUrl (get_transcription_request example_settings ''42'')]) \<and>
   getTranscriptionSwiftink (example_world three_polls_replies [])
     (example_settings\<lparr>timestamps := False\<rparr>) ''memo.webm'' =
     (Resolved ''hello world'',
      [RequestUrl (create_transcription_request example_settings),
       RequestUrl (get_transcription_request example_settings ''42''), Sleep 3000,
       RequestUrl (get_transcription_request example_settings ''42''), Sleep 3000,
       RequestUrl (get_transcription_request example_settings ''42'')])"
proof -
  let ?w = "example_world three_polls_replies []"
  let ?t2 = "\<lparr>status = ''complete'',
              text_segments = Some [\<lparr>start = 1, end' = 3, text' = ''hello''\<rparr>,
                                    \<lparr>start = 3, end' = 62, text' = ''world''\<rparr>],
              transcript_text = Some ''hello world''\<rparr>"
  have w: "create_reply ?w = Inr ''42''" "status_reply ?w 0 = Inr (status_only ''queued'')"
    "status_reply ?w 1 = Inr (status_only ''queued'')" "status_reply ?w 2 = Inr ?t2"
    by (simp_all add: example_world_def three_polls_replies_def)
  have q: "status (status_only ''queued'') = ''queued''"
    by (simp add: status_only_def)
  have c: "status ?t2 = ''complete''"
    "text_segments ?t2 = Some [\<lparr>start = 1, end' = 3, text' = ''hello''\<rparr>,
                               \<lparr>start = 3, end' = 62, text' = ''world''\<rparr>]"
    "transcript_text ?t2 = Some ''hello world''"
    by simp_all
  note run = three_polls_then_complete [OF w(1) w(2) q w(3) q w(4) c]
  have "fst (getTranscriptionSwiftink ?w example_settings ''memo.webm'') =
          Resolved (''00:01 - 00:03: hello'' @ [CHR 0x0A] @ ''00:03 - 01:02: world'' @ [CHR 0x0A])"
    using run [of example_settings "''memo.webm''"] example_segments_formatted [of three_polls_replies "[]"]
    by (simp add: example_settings_def)
  then show ?thesis
    using run [of example_settings "''memo.webm''"]
      run [of "example_settings\<lparr>timestamps := False\<rparr>" "''memo.webm''"]
    by (simp add: example_settings_def sleep_time_def create_transcription_request_def
          get_transcription_request_def api_base_def)
qed

lemma poll_loop_validation_failed:
  assumes "status_reply w polls = Inr t" and "status t = ''validation_failed''"
    and "tries \<le> max_tries"
  shows "poll_loop w s rq tries polls =
           (Rejected (Str ''Swiftink has detected an invalid file''), [RequestUrl rq])"
  using assms by (subst poll_loop.simps) (simp add: complete_with_fields_def)

lemma poll_loop_failed:
  assumes "status_reply w polls = Inr t" and "status t = ''failed''"
    and "tries \<le> max_tries"
  shows "poll_loop w s rq tries polls =
           (Rejected (Str ''Swiftink failed to transcribe the file''), [RequestUrl rq])"
  using assms by (subst poll_loop.simps) (simp add: complete_with_fields_def)

text \<open>
  C3: when the first status reply says \<^verbatim>\<open>validation_failed\<close>, the adapter rejects after
  the creating POST and exactly one status GET, with
  \<^verbatim>\<open>'Swiftink has detected an invalid file'\<close>; a first reply that says \<^verbatim>\<open>failed\<close> rejects
  with \<^verbatim>\<open>'Swiftink failed to transcribe the file'\<close>, a different value.
\<close>

theorem validation_failed_on_first_poll:
  assumes "create_reply w = Inr transcript_id"
    and "status_reply w 0 = Inr t" and "status t = ''validation_failed''"
    and "create_reply w' = Inr transcript_id'"
    and "status_reply w' 0 = Inr t'" and "status t' = ''failed''"
  shows "getTranscriptionSwiftink w s file' =
           (Rejected (Str ''Swiftink has detected an invalid file''),
            [RequestUrl (create_transcription_request s),
             RequestUrl (get_transcription_request s transcript_id)]) \<and>
         status_requests (snd (getTranscriptionSwiftink w s file')) = 1 \<and>
         fst (getTranscriptionSwiftink w' s' file'') =
           Rejected (Str ''Swiftink failed to transcribe the file'') \<and>
         fst (getTranscriptionSwiftink w s file') \<noteq> fst (getTranscriptionSwiftink w' s' file'')"
proof -
  have a: "getTranscriptionSwiftink w s file' =
           (Rejected (Str ''Swiftink has detected an invalid file''),
            [RequestUrl (create_transcription_request s),
             RequestUrl (get_transcription_request s transcript_id)])"
    using poll_loop_validation_failed [OF assms(2,3), of 0 s "get_transcription_request s transcript_id"]
    by (simp add: getTranscriptionSwiftink_def assms(1))
  have b: "fst (getTranscriptionSwiftink w' s' file'') =
           Rejected (Str ''Swiftink failed to transcribe the file'')"
    using poll_loop_failed [OF assms(5,6), of 0 s' "get_transcription_request s' transcript_id'"]
    by (simp add: getTranscriptionSwiftink_def assms(4))
  have "status_requests (snd (getTranscriptionSwiftink w s file')) = 1"
    by (simp add: a status_requests_def create_transcription_request_def
          get_transcription_request_def)
  with a b show ?thesis by simp
qed

theorem validation_failed_on_first_poll_witness:
  "getTranscriptionSwiftink (example_world (\<lambda>n. Inr (status_only ''validation_failed'')) [])
     example_settings ''memo.webm'' =
     (Rejected (Str ''Swiftink has detected an invalid file''),
      [RequestUrl (create_transcription_request example_settings),
       RequestUrl (get_transcription_request example_settings ''42'')]) \<and>
   fst (getTranscriptionSwiftink (example_world (\<lambda>n. Inr (status_only ''failed'')) [])
     example_settings ''memo.webm'') = Rejected (Str ''Swiftink failed to transcribe the file'')"
  using validation_failed_on_first_poll
    [of "example_world (\<lambda>n. Inr (status_only ''validation_failed'')) []" "''42''"
        "status_only ''validation_failed''"
        "example_world (\<lambda>n. Inr (status_only ''failed'')) []" "''42''" "status_only ''failed''"
        example_settings "''memo.webm''" example_settings "''memo.webm''"]
  by (simp add: example_world_def status_only_def)

lemma complete_without_fields_keeps_polling:
  "complete_without_fields r \<Longrightarrow> keeps_polling r"
  by (cases r) (auto simp: complete_with_fields_def split: option.splits)

text \<open>
  C9: a reply that says \<^verbatim>\<open>complete\<close> but lacks the text or the segments does not end the
  loop. While the try counter has not passed \<open>max_tries\<close>, such a round issues its request,
  sleeps \<open>sleep_time\<close> and goes round again with the counter increased by one; and when
  every reply is of this kind the adapter rejects with the timeout error, after 202
  status requests.
\<close>

theorem complete_without_fields_times_out:
  assumes "create_reply w = Inr transcript_id"
    and "\<And>n. complete_without_fields (status_reply w n)"
  shows "(\<forall>tries polls. tries \<le> max_tries \<longrightarrow>
            poll_loop w s rq tries polls =
              (case poll_loop w s rq (tries + 1) (polls + 1) of
                 (p, fx) \<Rightarrow> (p, RequestUrl rq # Sleep sleep_time # fx))) \<and>
         getTranscriptionSwiftink w s file' =
           (Rejected (Str ''Swiftink took too long to transcribe the file''),
            RequestUrl (create_transcription_request s) #
            rounds (max_tries + 1) (get_transcription_request s transcript_id) @
            [RequestUrl (get_transcription_request s transcript_id)])"
proof -
  let ?rq = "get_transcription_request s transcript_id"
  have keeps: "keeps_polling (status_reply w n)" for n
    by (rule complete_without_fields_keeps_polling) (rule assms(2))
  have step: "\<forall>tries polls. tries \<le> max_tries \<longrightarrow>
            poll_loop w s rq tries polls =
              (case poll_loop w s rq (tries + 1) (polls + 1) of
                 (p, fx) \<Rightarrow> (p, RequestUrl rq # Sleep sleep_time # fx))"
    using poll_loop_round [OF keeps] by blast
  obtain t where t: "status_reply w (max_tries + 1) = Inr t" "complete_with_fields t = None"
    using keeps [of "max_tries + 1"] by (cases "status_reply w (max_tries + 1)") auto
  have "poll_loop w s ?rq 0 0 =
          (case poll_loop w s ?rq (0 + (max_tries + 1)) (0 + (max_tries + 1)) of
             (p, fx) \<Rightarrow> (p, rounds (max_tries + 1) ?rq @ fx))"
    by (rule poll_loop_rounds) (simp_all add: keeps)
  moreover have "poll_loop w s ?rq (max_tries + 1) (max_tries + 1) =
          (Rejected (Str ''Swiftink took too long to transcribe the file''), [RequestUrl ?rq])"
    by (rule poll_loop_timeout [OF t]) simp
  ultimately have "getTranscriptionSwiftink w s file' =
           (Rejected (Str ''Swiftink took too long to transcribe the file''),
            RequestUrl (create_transcription_request s) # rounds (max_tries + 1) ?rq @ [RequestUrl ?rq])"
    by (simp add: getTranscriptionSwiftink_def assms(1))
  with step show ?thesis by simp
qed

theorem complete_without_fields_times_out_witness:
  "complete_without_fields (text_only_replies 0) \<and>
   getTranscriptionSwiftink (example_world text_only_replies []) example_settings ''memo.webm'' =
     (Rejected (Str ''Swiftink took too long to transcribe the file''),
      RequestUrl (create_transcription_request example_settings) #
      rounds 201 (get_transcription_request example_settings ''42'') @
      [RequestUrl (get_transcription_request example_settings ''42'')]) \<and>
   status_requests (snd (getTranscriptionSwiftink (example_world text_only_replies [])
     example_settings ''memo.webm'')) = 202"
proof -
  let ?w = "example_world text_only_replies []"
  have a: "create_reply ?w = Inr ''42''"
    by (simp add: example_world_def)
  have b: "complete_without_fields (status_reply ?w n)" for n
    by (simp add: example_world_def text_only_replies_def)
  have run: "getTranscriptionSwiftink ?w example_settings ''memo.webm'' =
     (Rejected (Str ''Swiftink took too long to transcribe the file''),
      RequestUrl (create_transcription_request example_settings) #
      rounds 201 (get_transcription_request example_settings ''42'') @
      [RequestUrl (get_transcription_request example_settings ''42'')])"
    using complete_without_fields_times_out [OF a b, of example_settings _ "''memo.webm''"]
    by (simp add: max_tries_def)
  have "status_requests (snd (getTranscriptionSwiftink ?w example_settings ''memo.webm'')) = 202"
    by (simp add: run status_requests_Cons status_requests_Nil status_requests_rounds req_method_get
          req_method_create)
  with run show ?thesis
    by (simp add: text_only_replies_def)
qed

section \<open>Properties of the streaming adapter\<close>

lemma deliver_fragments:
  "foldl deliver st (map (RecognizedEvent RecognizedSpeech) fragments) =
     st\<lparr>text_acc := text_acc st @ concat (map ((#) CHR '' '') fragments)\<rparr>"
  by (induction fragments arbitrary: st) (simp_all add: recognized_def)

lemma concat_fragments:
  "concat (map ((#) CHR '' '') fragments) =
     (if fragments = [] then [] else CHR '' '' # join_space fragments)"
  by (induction fragments rule: join_space.induct) simp_all

lemma trim_leading_space: "trim (CHR '' '' # str) = trim str"
  by (simp add: trim_def is_white_space_def)

lemma trim_fragments:
  "trim (concat (map ((#) CHR '' '') fragments)) = trim (join_space fragments)"
  by (simp add: concat_fragments trim_leading_space)

lemma run_session_fragments_stopped:
  "run_session (map (RecognizedEvent RecognizedSpeech) fragments @ [SessionStoppedEvent]) =
     \<lparr>text_acc = concat (map ((#) CHR '' '') fragments),
      settled = Resolved (trim (join_space fragments)),
      calls = [StartContinuousRecognition, CallResolve (trim (join_space fragments)),
               StopContinuousRecognition]\<rparr>"
  by (simp add: run_session_def deliver_fragments started_def sessionStopped_def resolve_def
        stopContinuousRecognitionAsync_def trim_fragments)

text \<open>
  C7: when the SDK delivers recognised speech fragments and then the end of the session,
  the promise resolves with the fragments in arrival order, joined by single spaces and
  trimmed; the session is started once and stopped once. For the fragments \<^verbatim>\<open>hello\<close> and
  \<^verbatim>\<open>world\<close> that string is \<^verbatim>\<open>hello world\<close>.
\<close>

theorem fragments_joined_and_trimmed:
  assumes "readBinary w file' = Inr webmBytes" and "getWaveBlob w webmBytes = Inr wav"
    and "recognizer_error w = None"
    and "sdk_events w = map (RecognizedEvent RecognizedSpeech) fragments @ [SessionStoppedEvent]"
  shows "getTranscriptionAzure w s file' =
           (Resolved (trim (join_space fragments)),
            [ReadBinary file', GetWaveBlob webmBytes, NewRecognizer (recognizer_for s wav),
             StartContinuousRecognition, CallResolve (trim (join_space fragments)),
             StopContinuousRecognition]) \<and>
         trim (join_space [''hello'', ''world'']) = ''hello world''"
proof -
  have "trim (join_space [''hello'', ''world'']) = ''hello world''"
    by (simp add: trim_def is_white_space_def)
  then show ?thesis
    using assms by (simp add: getTranscriptionAzure_def run_session_fragments_stopped)
qed

text \<open>The witness: the events \<^verbatim>\<open>hello\<close>, \<^verbatim>\<open>world\<close>, session stopped.\<close>

theorem fragments_joined_and_trimmed_witness:
  "getTranscriptionAzure
     (example_world three_polls_replies
        [RecognizedEvent RecognizedSpeech ''hello'', RecognizedEvent RecognizedSpeech ''world'',
         SessionStoppedEvent])
     example_settings ''memo.webm'' =
   (Resolved ''hello world'',
    [ReadBinary ''memo.webm'', GetWaveBlob ''webm'',
     NewRecognizer (recognizer_for example_settings ''wav''),
     StartContinuousRecognition, CallResolve ''hello world'', StopContinuousRecognition])"
  using fragments_joined_and_trimmed
    [of "example_world three_polls_replies
           [RecognizedEvent RecognizedSpeech ''hello'', RecognizedEvent RecognizedSpeech ''world'',
            SessionStoppedEvent]"
        "''memo.webm''" "''webm''" "''wav''" "[''hello'', ''world'']" example_settings]
  by (simp add: example_world_def)

lemma deliver_no_terminal:
  assumes "\<not> terminal_event ev" and "settled st = Pending"
  shows "settled (deliver st ev) = Pending \<and>
         filter is_settle_call (calls (deliver st ev)) = filter is_settle_call (calls st)"
  using assms
  by (cases ev)
     (auto simp: recognized_def canceled_def stopContinuousRecognitionAsync_def)

lemma foldl_deliver_no_terminal:
  assumes "\<not> list_ex terminal_event events" and "settled st = Pending"
  shows "settled (foldl deliver st events) = Pending \<and>
         filter is_settle_call (calls (foldl deliver st events)) = filter is_settle_call (calls st)"
  using assms
proof (induction events arbitrary: st)
  case Nil
  then show ?case by simp
next
  case (Cons ev events)
  from Cons.prems have ev: "\<not> terminal_event ev" and rest: "\<not> list_ex terminal_event events"
    by simp_all
  note step = deliver_no_terminal [OF ev Cons.prems(2)]
  from Cons.IH [OF rest, of "deliver st ev"] step show ?case by simp
qed

lemma canceled_calls_stop:
  "StopContinuousRecognition \<in> set (calls (canceled st e))"
  by (simp add: canceled_def stopContinuousRecognitionAsync_def)

lemma calls_foldl_deliver_prefix:
  "\<exists>more. calls (foldl deliver st events) = calls st @ more"
proof (induction events arbitrary: st)
  case Nil
  show ?case by simp
next
  case (Cons ev events)
  have "\<exists>more. calls (deliver st ev) = calls st @ more"
    by (cases ev)
       (auto simp: recognized_def canceled_def sessionStopped_def resolve_def reject_def
          stopContinuousRecognitionAsync_def)
  then obtain m1 where m1: "calls (deliver st ev) = calls st @ m1" ..
  from Cons.IH [of "deliver st ev"] obtain m2
    where "calls (foldl deliver (deliver st ev) events) = calls (deliver st ev) @ m2" ..
  with m1 show ?case by simp
qed

text \<open>
  C10: the \<^verbatim>\<open>canceled\<close> callback, given a reason other than \<^verbatim>\<open>Error\<close>, only asks the
  recogniser to stop: it calls neither \<^verbatim>\<open>resolve\<close> nor \<^verbatim>\<open>reject\<close>. If the SDK delivers no
  terminal event besides, then however many events it delivers the promise stays pending,
  while the stop request has been made.
\<close>

theorem cancellation_without_error_never_settles:
  assumes "readBinary w file' = Inr webmBytes" and "getWaveBlob w webmBytes = Inr wav"
    and "recognizer_error w = None"
    and "sdk_events w = before @ CanceledEventArgs e # after"
    and "reason e \<noteq> Error"
    and "\<not> list_ex terminal_event (before @ after)"
  shows "canceled st e = st\<lparr>calls := calls st @ [StopContinuousRecognition]\<rparr> \<and>
         fst (getTranscriptionAzure w s file') = Pending \<and>
         StopContinuousRecognition \<in> set (snd (getTranscriptionAzure w s file')) \<and>
         filter is_settle_call (snd (getTranscriptionAzure w s file')) = []"
proof -
  have handler: "canceled st e = st\<lparr>calls := calls st @ [StopContinuousRecognition]\<rparr>"
    using assms(5) by (simp add: canceled_def stopContinuousRecognitionAsync_def)
  have quiet: "\<not> list_ex terminal_event (before @ CanceledEventArgs e # after)"
    using assms(5,6) by simp
  have pending: "settled (run_session (sdk_events w)) = Pending"
    and silent: "filter is_settle_call (calls (run_session (sdk_events w))) = []"
    using foldl_deliver_no_terminal [OF quiet, of started]
    by (simp_all add: run_session_def assms(4) started_def)
  have "calls (run_session (sdk_events w)) =
          calls (foldl deliver (canceled (foldl deliver started before) e) after)"
    by (simp add: run_session_def assms(4))
  moreover obtain more where
    "calls (foldl deliver (canceled (foldl deliver started before) e) after) =
       calls (canceled (foldl deliver started before) e) @ more"
    using calls_foldl_deliver_prefix by blast
  ultimately have stop: "StopContinuousRecognition \<in> set (calls (run_session (sdk_events w)))"
    using canceled_calls_stop [of "foldl deliver started before" e] by simp
  show ?thesis
    using handler pending silent stop assms(1-3)
    by (simp add: getTranscriptionAzure_def Let_def)
qed

text \<open>The witness: a fragment, a cancellation at the end of the stream, another fragment.\<close>

theorem cancellation_without_error_never_settles_witness:
  "getTranscriptionAzure
     (example_world three_polls_replies
        [RecognizedEvent RecognizedSpeech ''hello'',
         CanceledEventArgs \<lparr>reason = EndOfStream, errorDetails = []\<rparr>,
         RecognizedEvent RecognizedSpeech ''world''])
     example_settings ''memo.webm'' =
   (Pending,
    [ReadBinary ''memo.webm'', GetWaveBlob ''webm'',
     NewRecognizer (recognizer_for example_settings ''wav''),
     StartContinuousRecognition, StopContinuousRecognition])"
proof -
  let ?events = "[RecognizedEvent RecognizedSpeech ''hello'',
         CanceledEventArgs \<lparr>reason = EndOfStream, errorDetails = []\<rparr>,
         RecognizedEvent RecognizedSpeech ''world'']"
  let ?w = "example_world three_polls_replies ?events"
  have "fst (getTranscriptionAzure ?w example_settings ''memo.webm'') = Pending"
    using cancellation_without_error_never_settles
      [of ?w "''memo.webm''" "''webm''" "''wav''" "[RecognizedEvent RecognizedSpeech ''hello'']"
          "\<lparr>reason = EndOfStream, errorDetails = []\<rparr>"
          "[RecognizedEvent RecognizedSpeech ''world'']" started example_settings]
    by (simp add: example_world_def)
  moreover have "snd (getTranscriptionAzure ?w example_settings ''memo.webm'') =
    [ReadBinary ''memo.webm'', GetWaveBlob ''webm'',
     NewRecognizer (recognizer_for example_settings ''wav''),
     StartContinuousRecognition, StopContinuousRecognition]"
    by (simp add: getTranscriptionAzure_def example_world_def run_session_def started_def
          recognized_def canceled_def stopContinuousRecognitionAsync_def)
  ultimately show ?thesis
    by (simp add: prod_eq_iff)
qed

text \<open>
  C8 asks that every path that settles the promise stops the session. The callbacks for
  a cancellation with an error and for the end of the session do: each calls
  \<^verbatim>\<open>reject\<close> or \<^verbatim>\<open>resolve\<close> and then \<^verbatim>\<open>stopContinuousRecognitionAsync\<close>. The branch for a
  result with reason \<^verbatim>\<open>NoMatch\<close> calls \<^verbatim>\<open>resolve\<close> only.
\<close>

lemma error_and_stop_paths_stop_the_session:
  "canceled st \<lparr>reason = Error, errorDetails = details\<rparr> =
     st\<lparr>settled := settled (reject st (CanceledEvent \<lparr>reason = Error, errorDetails = details\<rparr>)),
        calls := calls st @ [CallReject (CanceledEvent \<lparr>reason = Error, errorDetails = details\<rparr>),
                             StopContinuousRecognition]\<rparr>"
  "sessionStopped st =
     st\<lparr>settled := settled (resolve st (trim (text_acc st))),
        calls := calls st @ [CallResolve (trim (text_acc st)), StopContinuousRecognition]\<rparr>"
  "recognized st NoMatch result_text =
     st\<lparr>settled := settled (resolve st (trim (text_acc st))),
        calls := calls st @ [CallResolve (trim (text_acc st))]\<rparr>"
  by (simp_all add: canceled_def sessionStopped_def recognized_def resolve_def reject_def
        stopContinuousRecognitionAsync_def)

text \<open>
  C8 at the events \<^verbatim>\<open>hello\<close>, no match: the promise resolves with \<^verbatim>\<open>hello\<close> and the calls
  end with that \<^verbatim>\<open>resolve\<close>; the recogniser was started and never asked to stop.
\<close>

theorem no_match_path_leaves_session_running:
  "getTranscriptionAzure
     (example_world three_polls_replies
        [RecognizedEvent RecognizedSpeech ''hello'', RecognizedEvent NoMatch []])
     example_settings ''memo.webm'' =
   (Resolved ''hello'',
    [ReadBinary ''memo.webm'', GetWaveBlob ''webm'',
     NewRecognizer (recognizer_for example_settings ''wav''),
     StartContinuousRecognition, CallResolve ''hello''])"
  by (simp add: getTranscriptionAzure_def example_world_def run_session_def started_def
        recognized_def resolve_def trim_def is_white_space_def)

section \<open>Properties of the dispatcher\<close>

lemma promise_then_id: "promise_then p (\<lambda>v. v) = p"
  by (cases p) simp_all

text \<open>
  C4, as the code has it. \<^verbatim>\<open>getTranscription\<close> does not check the configured name. For
  every name that is not one of the three keys of the registry it calls no adapter and
  makes no call to the outside; the promise it returns rejects with the \<^verbatim>\<open>TypeError\<close> the
  runtime raises for the failed call, and never resolves with a transcript. There is no
  error of its own for an unknown backend.
\<close>

theorem unknown_backend_rejects_with_TypeError:
  assumes "transcription_engine s \<notin> {''swiftink'', ''whisper_asr'', ''azure_speech_service''}"
  shows "getTranscription w s file' = (Rejected TypeError, [])"
  using assms by (simp add: getTranscription_def transcription_engines_def)

theorem unknown_backend_rejects_with_TypeError_witness:
  "getTranscription (example_world three_polls_replies [])
     (example_settings\<lparr>transcription_engine := ''deepgram''\<rparr>) ''memo.webm'' =
   (Rejected TypeError, [])"
  using unknown_backend_rejects_with_TypeError
    [of "example_settings\<lparr>transcription_engine := ''deepgram''\<rparr>"
        "example_world three_polls_replies []" "''memo.webm''"]
  by simp

text \<open>The counterexample to C4 as stated: for the unknown name \<^verbatim>\<open>deepgram\<close> the promise
  rejects with the bare \<^verbatim>\<open>TypeError\<close> of the crashed call, which does not identify an
  unknown backend: the registered backend \<^verbatim>\<open>whisper_asr\<close> rejects with the very same
  value when reading the file throws a \<^verbatim>\<open>TypeError\<close>.\<close>

theorem unknown_backend_error_counterexample:
  "getTranscription crashing_world
     (example_settings\<lparr>transcription_engine := ''deepgram''\<rparr>) ''memo.webm'' =
     (Rejected TypeError, []) \<and>
   fst (getTranscription crashing_world
     (example_settings\<lparr>transcription_engine := ''whisper_asr''\<rparr>) ''memo.webm'') =
     Rejected TypeError"
  by (simp add: getTranscription_def transcription_engines_def getTranscriptionWhisperASR_def
        crashing_world_def example_world_def)

text \<open>
  C5: for every file and every name the registry knows, \<^verbatim>\<open>getTranscription\<close> settles as
  the adapter registered under that name does on this file: it resolves with the same
  string, rejects with the same value, stays pending when the adapter does, and makes
  exactly the adapter's calls to the outside, so nothing is retried and no other backend
  is tried. The three names select the three adapters.
\<close>

theorem dispatcher_hands_adapter_result_through:
  assumes "map_of (transcription_engines w s) (transcription_engine s) = Some adapter"
  shows "getTranscription w s file' = adapter file' \<and>
         (transcription_engine s = ''swiftink'' \<longrightarrow>
            adapter = getTranscriptionSwiftink w s) \<and>
         (transcription_engine s = ''whisper_asr'' \<longrightarrow>
            adapter = getTranscriptionWhisperASR w s) \<and>
         (transcription_engine s = ''azure_speech_service'' \<longrightarrow>
            adapter = getTranscriptionAzure w s)"
proof -
  have "getTranscription w s file' = adapter file'"
    using assms by (simp add: getTranscription_def promise_then_id split: prod.split)
  moreover have "transcription_engine s = ''swiftink'' \<longrightarrow> adapter = getTranscriptionSwiftink w s"
    using assms by (auto simp: transcription_engines_def)
  moreover have "transcription_engine s = ''whisper_asr'' \<longrightarrow>
      adapter = getTranscriptionWhisperASR w s"
    using assms by (auto simp: transcription_engines_def)
  moreover have "transcription_engine s = ''azure_speech_service'' \<longrightarrow>
      adapter = getTranscriptionAzure w s"
    using assms by (auto simp: transcription_engines_def)
  ultimately show ?thesis by simp
qed

text \<open>The witness: a rejection of the Swiftink adapter and a result of the Whisper adapter
  arrive unchanged.\<close>

theorem dispatcher_hands_adapter_result_through_witness:
  "getTranscription (example_world (\<lambda>n. Inr (status_only ''failed'')) []) example_settings
     ''memo.webm'' =
     (Rejected (Str ''Swiftink failed to transcribe the file''),
      [RequestUrl (create_transcription_request example_settings),
       RequestUrl (get_transcription_request example_settings ''42'')]) \<and>
   getTranscription (example_world three_polls_replies [])
     (example_settings\<lparr>transcription_engine := ''whisper_asr''\<rparr>) ''memo.webm'' =
     (Resolved ''hello'',
      [ReadBinary ''memo.webm'', PayloadGenerator ''webm'',
       RequestUrl (whisper_options example_settings ''webm'' ''boundary'')])"
proof -
  let ?w = "example_world (\<lambda>n. Inr (status_only ''failed'')) []"
  let ?s = "example_settings\<lparr>transcription_engine := ''whisper_asr''\<rparr>"
  have "map_of (transcription_engines ?w example_settings) (transcription_engine example_settings) =
          Some (getTranscriptionSwiftink ?w example_settings)"
    by (simp add: transcription_engines_def example_settings_def)
  from dispatcher_hands_adapter_result_through [OF this, of "''memo.webm''"]
  have "getTranscription ?w example_settings ''memo.webm'' =
          getTranscriptionSwiftink ?w example_settings ''memo.webm''"
    by simp
  moreover have "getTranscriptionSwiftink ?w example_settings ''memo.webm'' =
     (Rejected (Str ''Swiftink failed to transcribe the file''),
      [RequestUrl (create_transcription_request example_settings),
       RequestUrl (get_transcription_request example_settings ''42'')])"
    using poll_loop_failed [of ?w 0 "status_only ''failed''" 0 example_settings
        "get_transcription_request example_settings ''42''"]
    by (simp add: getTranscriptionSwiftink_def example_world_def status_only_def)
  moreover have "getTranscription (example_world three_polls_replies []) ?s ''memo.webm'' =
     (Resolved ''hello'',
      [ReadBinary ''memo.webm'', PayloadGenerator ''webm'',
       RequestUrl (whisper_options example_settings ''webm'' ''boundary'')])"
    by (simp add: getTranscription_def transcription_engines_def getTranscriptionWhisperASR_def
          example_world_def whisper_options_def example_settings_def)
  ultimately show ?thesis by simp
qed

section \<open>Properties of the segment formatter\<close>

declare decimal.simps [simp del]

lemma host_dates:
  "date_of_seconds (host_in_zone offset) 1 = Some 1000"
  "date_of_seconds (host_in_zone offset) 3 = Some 3000"
  "date_of_seconds (host_in_zone offset) 62 = Some 62000"
  "date_of_seconds (host_in_zone offset) 10000000000000000 = None"
  by (simp_all add: host_in_zone_def example_world_def time_clip_def)

lemma host_offset:
  "add_timezone_offset (host_in_zone offset) (Some t) = time_clip (t + offset * 60000)"
  "add_timezone_offset (host_in_zone offset) None = None"
  by (simp_all add: host_in_zone_def example_world_def add_timezone_offset_def)

lemma host_format: "format (host_in_zone offset) = format_in_zone offset"
  by (simp add: host_in_zone_def example_world_def)

lemma decimal_values:
  "decimal 1000 = ''1000''" "decimal 3000 = ''3000''"
  "decimal 19799000 = ''19799000''" "decimal 19797000 = ''19797000''"
  by (simp_all add: decimal.simps)

lemma timestamps_in_zone:
  "format_in_zone offset (Some 1000) ''T'' = Inr ''1000''"
  "format_in_zone offset (Some 3000) ''T'' = Inr ''3000''"
  "format_in_zone offset (Some (- 19799000)) ''T'' = Inr ''-19799000''"
  "format_in_zone offset (Some (- 19797000)) ''T'' = Inr ''-19797000''"
  by (simp_all add: format_in_zone_def signed_decimal_def decimal_values)

lemma minutes_in_half_hour_zone:
  "format_in_zone (- 330) (Some (- 19799000)) ''mm:ss'' = Inr ''00:01''"
  "format_in_zone (- 330) (Some (- 19797000)) ''mm:ss'' = Inr ''00:03''"
  "format_in_zone (- 330) (Some (- 19738000)) ''mm:ss'' = Inr ''01:02''"
  by (simp_all add: format_in_zone_def format_mm_ss_def two_digits_def)

lemma half_hour_zone_formatted:
  "format (host_in_zone (- 330))
     (add_timezone_offset (host_in_zone (- 330)) (date_of_seconds (host_in_zone (- 330)) 1))
     ''mm:ss'' = Inr ''00:01''"
  "format (host_in_zone (- 330))
     (add_timezone_offset (host_in_zone (- 330)) (date_of_seconds (host_in_zone (- 330)) 3))
     ''mm:ss'' = Inr ''00:03''"
  "format (host_in_zone (- 330))
     (add_timezone_offset (host_in_zone (- 330)) (date_of_seconds (host_in_zone (- 330)) 62))
     ''mm:ss'' = Inr ''01:02''"
  by (simp_all add: host_dates host_offset host_format time_clip_def minutes_in_half_hour_zone)

lemma segments_loop_lines:
  assumes "\<And>sg. sg \<in> set segments \<Longrightarrow> segment_string w pattern sg = Inr (line sg)"
  shows "segments_loop w pattern segments transcription' =
           Inr (transcription' @ concat (map line segments))"
  using assms by (induction segments arbitrary: transcription') simp_all

lemma formatter_throws_first_error:
  assumes "segment_string w pattern sg = Inl e"
    and "\<And>sg'. sg' \<in> set before \<Longrightarrow> segment_string w pattern sg' = Inr (line sg')"
  shows "segmentsToTimestampedString w (before @ sg # after) pattern = Inl e"
proof -
  have "segments_loop w pattern (before @ sg # after) transcription' = Inl e" for transcription'
    using assms by (induction before arbitrary: transcription') simp_all
  then show ?thesis by (simp add: segmentsToTimestampedString_def)
qed

text \<open>
  C6, as the code has it. The formatter calls \<^verbatim>\<open>format\<close> of date-fns on both bounds of
  every segment, after moving each bound by the offset of the host's zone. For every
  sequence of segments and every pattern on which \<^verbatim>\<open>format\<close> returns a string for both
  bounds of every segment, the formatter returns the concatenation, in the order of the
  segments, of one line per segment of the shape
  \<^verbatim>\<open><formatted start> - <formatted end>: <text>\n\<close> and nothing else, the formatted bounds
  being what \<^verbatim>\<open>format\<close> returns on this host for the moved dates. The result is
  determined by the two arguments together with the host's zone and date library.
\<close>

theorem one_line_per_segment_in_order:
  assumes "\<And>sg. sg \<in> set segments \<Longrightarrow>
             format w (add_timezone_offset w (date_of_seconds w (start sg))) pattern =
               Inr (start_formatted sg) \<and>
             format w (add_timezone_offset w (date_of_seconds w (end' sg))) pattern =
               Inr (end_formatted sg)"
  shows "segmentsToTimestampedString w segments pattern =
           Inr (concat (map (\<lambda>sg. start_formatted sg @ '' - '' @ end_formatted sg @ '': '' @
                                   text' sg @ [CHR 0x0A]) segments))"
proof -
  have "segment_string w pattern sg =
          Inr (start_formatted sg @ '' - '' @ end_formatted sg @ '': '' @ text' sg @ [CHR 0x0A])"
    if "sg \<in> set segments" for sg
    using assms [OF that] by (simp add: segment_string_def)
  then show ?thesis
    using segments_loop_lines
      [of segments w pattern
          "\<lambda>sg. start_formatted sg @ '' - '' @ end_formatted sg @ '': '' @ text' sg @ [CHR 0x0A]" "[]"]
    by (simp add: segmentsToTimestampedString_def)
qed

text \<open>The witness, on the host east of UTC: the offset the formatter adds and the
  local time \<^verbatim>\<open>format\<close> renders cancel, and the lines show the segments' own times.\<close>

theorem one_line_per_segment_in_order_witness:
  "segmentsToTimestampedString (host_in_zone (- 330))
     [\<lparr>start = 1, end' = 3, text' = ''hello''\<rparr>, \<lparr>start = 3, end' = 62, text' = ''world''\<rparr>]
     ''mm:ss'' =
   Inr (''00:01 - 00:03: hello'' @ [CHR 0x0A] @ ''00:03 - 01:02: world'' @ [CHR 0x0A])"
proof -
  let ?w = "host_in_zone (- 330)"
  let ?segments = "[\<lparr>start = 1, end' = 3, text' = ''hello''\<rparr>,
                    \<lparr>start = 3, end' = 62, text' = ''world''\<rparr>]"
  let ?sf = "\<lambda>sg. if start sg = 1 then ''00:01'' else ''00:03''"
  let ?ef = "\<lambda>sg. if end' sg = 3 then ''00:03'' else ''01:02''"
  have "format ?w (add_timezone_offset ?w (date_of_seconds ?w (start sg))) ''mm:ss'' =
          Inr (?sf sg) \<and>
        format ?w (add_timezone_offset ?w (date_of_seconds ?w (end' sg))) ''mm:ss'' =
          Inr (?ef sg)"
    if "sg \<in> set ?segments" for sg
  proof -
    from that consider "sg = \<lparr>start = 1, end' = 3, text' = ''hello''\<rparr>"
      | "sg = \<lparr>start = 3, end' = 62, text' = ''world''\<rparr>"
      by auto
    then show ?thesis
      by cases (simp_all add: half_hour_zone_formatted)
  qed
  from one_line_per_segment_in_order [of ?segments ?w "''mm:ss''" ?sf ?ef, OF this]
  show ?thesis by simp
qed

text \<open>The counterexample to C6 as stated. A segment that starts 1e16 seconds in has no
  valid date, \<^verbatim>\<open>format\<close> throws, and the formatter returns no string at all. And with
  the pattern \<^verbatim>\<open>T\<close> the same segment and the same pattern give different strings on a
  host in UTC and on a host five and a half hours east of it, so the result is not a
  function of the two arguments alone.\<close>

theorem formatter_every_pattern_pure_counterexample:
  "segmentsToTimestampedString (host_in_zone 0)
     [\<lparr>start = 10000000000000000, end' = 10000000000000000, text' = ''hello''\<rparr>] ''mm:ss'' =
     Inl (ErrorObject ''RangeError: Invalid time value'') \<and>
   segmentsToTimestampedString (host_in_zone 0)
     [\<lparr>start = 1, end' = 3, text' = ''hello''\<rparr>] ''T'' =
     Inr (''1000 - 3000: hello'' @ [CHR 0x0A]) \<and>
   segmentsToTimestampedString (host_in_zone (- 330))
     [\<lparr>start = 1, end' = 3, text' = ''hello''\<rparr>] ''T'' =
     Inr (''-19799000 - -19797000: hello'' @ [CHR 0x0A])"
proof -
  have invalid: "segmentsToTimestampedString (host_in_zone 0)
     [\<lparr>start = 10000000000000000, end' = 10000000000000000, text' = ''hello''\<rparr>] ''mm:ss'' =
     Inl (ErrorObject ''RangeError: Invalid time value'')"
    by (simp add: segmentsToTimestampedString_def segment_string_def host_dates host_offset
          host_format format_in_zone_def)
  have utc: "segmentsToTimestampedString (host_in_zone 0)
     [\<lparr>start = 1, end' = 3, text' = ''hello''\<rparr>] ''T'' =
     Inr (''1000 - 3000: hello'' @ [CHR 0x0A])"
    by (simp add: segmentsToTimestampedString_def segment_string_def host_dates host_offset
          host_format time_clip_def timestamps_in_zone)
  have east: "segmentsToTimestampedString (host_in_zone (- 330))
     [\<lparr>start = 1, end' = 3, text' = ''hello''\<rparr>] ''T'' =
     Inr (''-19799000 - -19797000: hello'' @ [CHR 0x0A])"
    by (simp add: segmentsToTimestampedString_def segment_string_def host_dates host_offset
          host_format time_clip_def timestamps_in_zone)
  from invalid utc east show ?thesis by simp
qed

end
